theory Spec2Isabelle
  imports Complex_Main
begin

section \<open>GPS simulation of the fleet tracker (utils/gpsSimulation.ts)\<close>

text \<open>
  A shallow embedding of the per-vehicle GPS update \<open>simulateGPSUpdate\<close>, of its two
  route helpers and of the tick driver of the vehicle store.

  Conventions of the embedding.
  \<^item> A JavaScript \<open>number\<close> is a \<^typ>\<open>real\<close>: the model covers finite numbers and
    exact arithmetic; \<open>NaN\<close>, the infinities, the negative zero and rounding are outside it.
    The one infinity of the source, the initial \<open>minDistance\<close>, is \<open>None\<close> of an option.
  \<^item> A \<open>Date\<close> is an \<^typ>\<open>int\<close>, the milliseconds since the epoch.
  \<^item> An optional field (\<open>route?\<close>, \<open>cargoTemperature?\<close>, a nullable \<open>lastStopTime\<close>, a
    history read as \<open>statusHistory || []\<close>) is an option. The destination is an option as
    well: TypeScript's annotation is erased at run time, and reading \<open>.lat\<close> of a missing
    destination throws a \<open>TypeError\<close>, which the model returns as \<open>Inl TypeError\<close>.
  \<^item> \<open>Math.random()\<close> and \<open>new Date()\<close> are inputs: the record \<open>Env\<close> holds the clock and
    one draw for each call site of \<open>Math.random\<close>.
  \<^item> \<open>console.log\<close> and \<open>console.warn\<close> are outputs: the update returns, beside its
    result or its exception, the list of the messages it printed, in order.
  \<^item> \<open>calculateNewPosition\<close> and \<open>calculateVehicleStatus\<close> are imported by the source from
    \<open>utils/statusCalculations\<close>; the update takes them as parameters (record \<open>Deps\<close>).
\<close>

subsection \<open>Data model\<close>

record Position =
  lat :: real
  lng :: real

record Destination = Position +
  address :: string

record Target = Position +
  index :: int

datatype VehicleStatus = OnTime | Warning | Critical

datatype CargoStatus = Fresh | Frozen | Mixed

record HistoryEntry =
  timestamp :: int
  entry_status :: VehicleStatus
  entry_speed :: real
  entry_position :: Position

record Vehicle =
  vehicle_id :: string
  driverName :: string
  position :: Position
  destination :: "Destination option"
  currentSpeed :: real
  heading :: real
  scheduledETA :: "int option"
  cargoStatus :: CargoStatus
  cargoTemperature :: "real option"
  lastStopTime :: "int option"
  status :: VehicleStatus
  statusHistory :: "HistoryEntry list option"
  route :: "Position list option"

text \<open>
  \<open>TypeError\<close> is what the JavaScript run time throws on \<open>undefined.lat\<close>.
  \<open>MissingDestination\<close> is the error kind the specification names; no statement of the
  source raises it.
\<close>

datatype ErrorKind = TypeError | MissingDestination

text \<open>The messages of \<open>console.log\<close> and \<open>console.warn\<close>, by call site, with their arguments.\<close>

datatype LogEvent =
    EnteringHighway string real
  | SpeedViolation string string real real
  | FollowingRoute string nat nat int real
  | NoRoute string nat

fun isSpeedViolation :: "LogEvent \<Rightarrow> bool" where
  "isSpeedViolation (SpeedViolation i n s l) = True"
| "isSpeedViolation e = False"

fun observedSpeed :: "LogEvent \<Rightarrow> real" where
  "observedSpeed (SpeedViolation i n s l) = s"
| "observedSpeed e = 0"

record Env =
  now :: int
  r_variation :: real
  r_traffic :: real
  r_clear :: real
  r_highway :: real
  r_highway_speed :: real
  r_debug :: real
  r_temp :: real

record Deps =
  calculateNewPosition :: "Position \<Rightarrow> real \<Rightarrow> real \<Rightarrow> Position"
  calculateVehicleStatus :: "Vehicle \<Rightarrow> VehicleStatus"

subsection \<open>Library functions of JavaScript\<close>

text \<open>\<open>Math.atan2(y, x)\<close> on finite reals; \<open>Math.atan2(0, 0)\<close> is \<open>0\<close>.\<close>

definition Math_atan2 :: "real \<Rightarrow> real \<Rightarrow> real" where
  "Math_atan2 y x =
     (if 0 < x then arctan (y / x)
      else if x < 0 then (if 0 \<le> y then arctan (y / x) + pi else arctan (y / x) - pi)
      else if 0 < y then pi / 2
      else if y < 0 then - (pi / 2)
      else 0)"

text \<open>The remainder \<open>a % n\<close> of JavaScript: the quotient is truncated toward zero.\<close>

definition js_rem :: "real \<Rightarrow> real \<Rightarrow> real" where
  "js_rem a n = a - n * of_int (if a / n < 0 then \<lceil>a / n\<rceil> else \<lfloor>a / n\<rfloor>)"

text \<open>\<open>xs.slice(-n)\<close>: the last \<open>n\<close> elements, all of them when there are fewer.\<close>

definition slice_last :: "nat \<Rightarrow> 'a list \<Rightarrow> 'a list" where
  "slice_last n xs = drop (length xs - n) xs"

subsection \<open>findClosestRoutePoint (lines 8-26)\<close>

text \<open>
  The callback of \<open>route.forEach\<close>, run on the rest of the route from index \<open>idx\<close> on, with the
  state \<open>(closestIndex, minDistance)\<close>; \<open>minDistance = None\<close> is \<open>Infinity\<close>.
\<close>

fun forEach_closest ::
  "Position \<Rightarrow> Position list \<Rightarrow> nat \<Rightarrow> nat \<times> real option \<Rightarrow> nat \<times> real option" where
  "forEach_closest pos [] idx st = st"
| "forEach_closest pos (point # rest) idx (closestIndex, minDistance) =
     (let distance = sqrt (((lat point - lat pos) * 111000)\<^sup>2 + ((lng point - lng pos) * 111000)\<^sup>2)
      in if (case minDistance of None \<Rightarrow> True | Some m \<Rightarrow> distance < m)
         then forEach_closest pos rest (idx + 1) (idx, Some distance)
         else forEach_closest pos rest (idx + 1) (closestIndex, minDistance))"

definition findClosestRoutePoint :: "Position \<Rightarrow> Position list \<Rightarrow> nat" where
  "findClosestRoutePoint pos rt =
     (if rt = [] then 0 else fst (forEach_closest pos rt 0 (0, None)))"

subsection \<open>getNextRouteTarget (lines 31-49)\<close>

definition getNextRouteTarget :: "Vehicle \<Rightarrow> nat \<Rightarrow> ErrorKind + Target option" where
  "getNextRouteTarget v currentRouteIndex =
     (if (case route v of None \<Rightarrow> True | Some rt \<Rightarrow> rt = []) then
        (case destination v of
           None \<Rightarrow> Inl TypeError
         | Some d \<Rightarrow> Inr (Some \<lparr>lat = lat d, lng = lng d, index = - 1\<rparr>))
      else
        (let rt = (case route v of None \<Rightarrow> [] | Some rt \<Rightarrow> rt);
             targetIndex = min (int currentRouteIndex + 1) (int (length rt) - 1)
         in if targetIndex \<ge> int (length rt) then
              (case destination v of
                 None \<Rightarrow> Inl TypeError
               | Some d \<Rightarrow> Inr (Some \<lparr>lat = lat d, lng = lng d, index = int (length rt)\<rparr>))
            else if 0 \<le> targetIndex then
              Inr (Some \<lparr>lat = lat (rt ! nat targetIndex), lng = lng (rt ! nat targetIndex),
                         index = targetIndex\<rparr>)
            else Inl TypeError))"

subsection \<open>simulateGPSUpdate (lines 55-209)\<close>

text \<open>Line 60: the distance travelled, in kilometres.\<close>

definition distanceKm :: "Vehicle \<Rightarrow> real" where
  "distanceKm v = (currentSpeed v / 3600) * 2"

text \<open>Lines 62-81: the random variation of the speed and the three random events.\<close>

definition speedVariation :: "Env \<Rightarrow> real" where
  "speedVariation env = (r_variation env - 0.5) * 2 * 0.05"

definition perturbedSpeed :: "Env \<Rightarrow> Vehicle \<Rightarrow> real \<times> LogEvent list" where
  "perturbedSpeed env v =
     (let newSpeed = currentSpeed v * (1 + speedVariation env);
          newSpeed = (if r_traffic env < 0.05 then max 10 (newSpeed * 0.5) else newSpeed);
          newSpeed = (if r_clear env < 0.03 then min 60 (newSpeed * 1.2) else newSpeed)
      in if r_highway env < 0.02
         then (let newSpeed = 85 + r_highway_speed env * 13
               in (newSpeed, [EnteringHighway (vehicle_id v) newSpeed]))
         else (newSpeed, []))"

text \<open>Line 84: the realistic bounds.\<close>

definition boundedSpeed :: "real \<Rightarrow> real" where
  "boundedSpeed newSpeed = max 5 (min 98 newSpeed)"

text \<open>Lines 86-91: the speed limit check.\<close>

definition SPEED_LIMIT :: real where
  "SPEED_LIMIT = 100"

definition speedLimitCheck :: "Vehicle \<Rightarrow> real \<Rightarrow> real \<times> LogEvent list" where
  "speedLimitCheck v newSpeed =
     (if newSpeed > SPEED_LIMIT
      then (SPEED_LIMIT, [SpeedViolation (vehicle_id v) (driverName v) newSpeed SPEED_LIMIT])
      else (newSpeed, []))"

text \<open>
  The three lines the source repeats at 107-119, 127-130 and 135-138: the heading toward a
  point, in degrees, and the position after moving toward it.
\<close>

definition moveToward :: "Deps \<Rightarrow> Vehicle \<Rightarrow> real \<Rightarrow> real \<Rightarrow> real \<Rightarrow> Position \<times> real" where
  "moveToward deps v km tlat tlng =
     (let latDiff = tlat - lat (position v);
          lngDiff = tlng - lng (position v);
          targetHeading = (Math_atan2 lngDiff latDiff * 180) / pi
      in (calculateNewPosition deps (position v) km targetHeading, targetHeading))"

text \<open>
  Lines 127-130 and 135-138: straight toward the destination. Reading the coordinates of
  a missing destination throws.
\<close>

definition directMove :: "Deps \<Rightarrow> Vehicle \<Rightarrow> real \<Rightarrow> ErrorKind + Position \<times> real" where
  "directMove deps v km =
     (case destination v of
        None \<Rightarrow> Inl TypeError
      | Some d \<Rightarrow> Inr (moveToward deps v km (lat d) (lng d)))"

text \<open>
  Lines 93-139: the new position and the heading before normalisation, or the exception,
  and the messages printed on the way.
\<close>

definition routeStep ::
  "Deps \<Rightarrow> Env \<Rightarrow> Vehicle \<Rightarrow> real \<Rightarrow> (ErrorKind + Position \<times> real) \<times> LogEvent list" where
  "routeStep deps env v km =
     (if (case route v of None \<Rightarrow> False | Some rt \<Rightarrow> length rt > 2) then
        (let rt = (case route v of None \<Rightarrow> [] | Some rt \<Rightarrow> rt);
             currentRouteIndex = findClosestRoutePoint (position v) rt
         in case getNextRouteTarget v currentRouteIndex of
              Inl e \<Rightarrow> (Inl e, [])
            | Inr target \<Rightarrow>
               (case target of
                  None \<Rightarrow> (directMove deps v km, [])
                | Some t \<Rightarrow>
                   (if index t < int (length rt) then
                      (let (newPosition, newHeading) = moveToward deps v km (lat t) (lng t)
                       in (Inr (newPosition, newHeading),
                           (if r_debug env < 0.1
                            then [FollowingRoute (vehicle_id v) currentRouteIndex (length rt)
                                    (index t) newHeading]
                            else [])))
                    else (directMove deps v km, []))))
      else
        (directMove deps v km,
         [NoRoute (vehicle_id v) (case route v of None \<Rightarrow> 0 | Some rt \<Rightarrow> length rt)]))"

text \<open>Line 142: the heading in the range 0-360.\<close>

definition normalizeHeading :: "real \<Rightarrow> real" where
  "normalizeHeading newHeading = js_rem (js_rem newHeading 360 + 360) 360"

text \<open>Lines 145-148: the distance to the destination, in metres.\<close>

definition distanceToDestination :: "Destination \<Rightarrow> Position \<Rightarrow> real" where
  "distanceToDestination d newPosition =
     sqrt (((lat d - lat newPosition) * 111000)\<^sup>2 + ((lng d - lng newPosition) * 111000)\<^sup>2)"

text \<open>Lines 156-162: slowing down near the destination.\<close>

definition arrivalSpeed :: "real \<Rightarrow> real \<Rightarrow> real" where
  "arrivalSpeed metres newSpeed =
     (let newSpeed = (if metres < 500 then min newSpeed 20 else newSpeed)
      in if metres < 100 then 0 else newSpeed)"

text \<open>Lines 144-208, once the destination has been read.\<close>

definition finishUpdate ::
  "Deps \<Rightarrow> Env \<Rightarrow> Vehicle \<Rightarrow> Destination \<Rightarrow> real \<Rightarrow> Position \<Rightarrow> real \<Rightarrow> Vehicle" where
  "finishUpdate deps env v d speed0 newPosition newHeading =
     (let metres = distanceToDestination d newPosition;
          finalPosition = (if metres < 100 then \<lparr>lat = lat d, lng = lng d\<rparr> else newPosition);
          newSpeed = arrivalSpeed metres speed0;
          newHistoryEntry = \<lparr>timestamp = now env, entry_status = status v,
                             entry_speed = currentSpeed v, entry_position = position v\<rparr>;
          existingHistory = (case statusHistory v of None \<Rightarrow> [] | Some h \<Rightarrow> h);
          updatedHistory = slice_last 450 (existingHistory @ [newHistoryEntry]);
          newLastStopTime =
            (if newSpeed < 5 \<and> lastStopTime v = None then Some (now env)
             else if newSpeed \<ge> 5 then None
             else lastStopTime v);
          updatedVehicle = v\<lparr>position := finalPosition, currentSpeed := newSpeed,
                             heading := newHeading, lastStopTime := newLastStopTime,
                             statusHistory := Some updatedHistory, route := route v\<rparr>;
          updatedVehicle = updatedVehicle\<lparr>status := calculateVehicleStatus deps updatedVehicle\<rparr>
      in case cargoTemperature updatedVehicle of
           None \<Rightarrow> updatedVehicle
         | Some t \<Rightarrow>
            (let tempVariation = (r_temp env - 0.5) * 0.5
             in updatedVehicle\<lparr>cargoTemperature := Some (max 0 (min 10 (t + tempVariation)))\<rparr>))"

text \<open>
  The update: the new vehicle or the exception, and the messages printed, in order. The
  destination is first read at line 127 or 135 without a usable route and at line 146
  with one.
\<close>

definition simulateGPSUpdate ::
  "Deps \<Rightarrow> Env \<Rightarrow> Vehicle \<Rightarrow> (ErrorKind + Vehicle) \<times> LogEvent list" where
  "simulateGPSUpdate deps env v =
     (let (perturbed, log1) = perturbedSpeed env v;
          (newSpeed, log2) = speedLimitCheck v (boundedSpeed perturbed);
          (moved, log3) = routeStep deps env v (distanceKm v)
      in ((case moved of
             Inl e \<Rightarrow> Inl e
           | Inr (newPosition, newHeading) \<Rightarrow>
              (case destination v of
                 None \<Rightarrow> Inl TypeError
               | Some d \<Rightarrow>
                  Inr (finishUpdate deps env v d newSpeed newPosition
                        (normalizeHeading newHeading)))),
          log1 @ log2 @ log3))"

subsection \<open>The tick driver (stores/vehicleStore.ts, lines 178-183)\<close>

text \<open>The period of \<open>setInterval\<close>, in milliseconds.\<close>

definition TICK_INTERVAL_MS :: real where
  "TICK_INTERVAL_MS = 4000"

text \<open>
  Every tick the store replaces each vehicle by its update (\<open>simulateAllVehicles\<close> maps
  \<open>simulateGPSUpdate\<close> over the vehicles, which do not interact). \<open>ticks\<close> follows one
  vehicle through successive ticks, with one \<open>Env\<close> for each tick; an exception of a tick
  ends the run.
\<close>

fun ticks :: "Deps \<Rightarrow> Env list \<Rightarrow> Vehicle \<Rightarrow> ErrorKind + Vehicle" where
  "ticks deps [] v = Inr v"
| "ticks deps (env # envs) v =
     (case fst (simulateGPSUpdate deps env v) of
        Inl e \<Rightarrow> Inl e
      | Inr v' \<Rightarrow> ticks deps envs v')"

subsection \<open>The imported helpers and sample inputs\<close>

text \<open>
  Modelled from the spec: \<open>calculateNewPosition\<close> of \<open>utils/statusCalculations\<close> is not
  among the sources. Section 4.2, step 4: move \<open>distanceKm\<close> along the heading from the
  current position using an equirectangular approximation, at 111 km per degree. It
  instantiates the parameter of the update at concrete inputs only.
\<close>

definition calculateNewPosition_spec :: "Position \<Rightarrow> real \<Rightarrow> real \<Rightarrow> Position" where
  "calculateNewPosition_spec current km headingDeg =
     \<lparr>lat = lat current + (km / 111) * cos (headingDeg * pi / 180),
      lng = lng current +
        (km / (111 * cos (lat current * pi / 180))) * sin (headingDeg * pi / 180)\<rparr>"

text \<open>
  Modelled from the spec: \<open>calculateVehicleStatus\<close> of \<open>utils/statusCalculations\<close> is not
  among the sources. Section 4.3: critical when the speed is under 8 km/h and
  \<open>lastStopTime\<close> is set and more than 10 minutes old; warning when the speed is under the
  required average speed, the remaining distance over the time left until \<open>scheduledETA\<close>,
  ignored without an ETA; on-time otherwise. The clock \<open>t\<close> is a parameter. It
  instantiates the parameter of the update at concrete inputs only.
\<close>

definition requiredAverageSpeed_spec :: "int \<Rightarrow> Vehicle \<Rightarrow> real option" where
  "requiredAverageSpeed_spec t u =
     (case scheduledETA u of
        None \<Rightarrow> None
      | Some eta \<Rightarrow>
         (case destination u of
            None \<Rightarrow> None
          | Some d \<Rightarrow>
             (if t < eta
              then Some ((distanceToDestination d (position u) / 1000) /
                         (real_of_int (eta - t) / 3600000))
              else None)))"

definition calculateVehicleStatus_spec :: "int \<Rightarrow> Vehicle \<Rightarrow> VehicleStatus" where
  "calculateVehicleStatus_spec t u =
     (if currentSpeed u < 8 \<and>
         (case lastStopTime u of None \<Rightarrow> False | Some s \<Rightarrow> 600000 < t - s)
      then Critical
      else if (case requiredAverageSpeed_spec t u of
                 None \<Rightarrow> False
               | Some r \<Rightarrow> currentSpeed u < r)
      then Warning
      else OnTime)"

definition sampleDeps :: Deps where
  "sampleDeps = \<lparr>calculateNewPosition = calculateNewPosition_spec,
                  calculateVehicleStatus = calculateVehicleStatus_spec 1700000000000\<rparr>"

text \<open>Draws under which no random event fires, and draws under which all but the traffic
  slowdown fire, with the highway speed and the variation near their maxima.\<close>

definition calmEnv :: Env where
  "calmEnv = \<lparr>now = 1700000000000, r_variation = 0.5, r_traffic = 0.5, r_clear = 0.5,
               r_highway = 0.5, r_highway_speed = 0.5, r_debug = 0.5, r_temp = 0.5\<rparr>"

definition burstEnv :: Env where
  "burstEnv = \<lparr>now = 1700000004000, r_variation = 0.99, r_traffic = 0.5, r_clear = 0.01,
                r_highway = 0.01, r_highway_speed = 0.999, r_debug = 0.05, r_temp = 0.9\<rparr>"

text \<open>The scenario of the specification: at (12.97, 77.59), bound for (12.98, 77.60), no
  route, 40 km/h.\<close>

definition scenarioVehicle :: Vehicle where
  "scenarioVehicle =
     \<lparr>vehicle_id = ''v1'', driverName = ''Jesse Pinkman'',
      position = \<lparr>lat = 12.97, lng = 77.59\<rparr>,
      destination = Some \<lparr>lat = 12.98, lng = 77.60,
                           address = ''MG Road, Bangalore, Karnataka''\<rparr>,
      currentSpeed = 40, heading = 45, scheduledETA = None, cargoStatus = Fresh,
      cargoTemperature = None, lastStopTime = None, status = OnTime,
      statusHistory = Some [], route = None\<rparr>"

text \<open>The same vehicle 50 metres south of its destination.\<close>

definition nearVehicle :: Vehicle where
  "nearVehicle = scenarioVehicle\<lparr>position := \<lparr>lat = 12.97955, lng = 77.60\<rparr>\<rparr>"

text \<open>The same vehicle with no destination.\<close>

definition lostVehicle :: Vehicle where
  "lostVehicle = scenarioVehicle\<lparr>destination := None\<rparr>"

text \<open>
  A vehicle on a route of three waypoints running north along a meridian; it is 111 metres
  north of the last waypoint, and its destination is another kilometre to the north.
\<close>

definition meridianRoute :: "Position list" where
  "meridianRoute = [\<lparr>lat = 12.96, lng = 77.59\<rparr>, \<lparr>lat = 12.97, lng = 77.59\<rparr>,
                    \<lparr>lat = 12.98, lng = 77.59\<rparr>]"

definition pastRouteVehicle :: Vehicle where
  "pastRouteVehicle = scenarioVehicle
     \<lparr>position := \<lparr>lat = 12.981, lng = 77.59\<rparr>,
      destination := Some \<lparr>lat = 12.99, lng = 77.59,
                            address = ''Yelahanka, Bangalore, Karnataka''\<rparr>,
      route := Some meridianRoute\<rparr>"

text \<open>The same vehicle a kilometre east of its destination, so that it heads west.\<close>

definition westboundVehicle :: Vehicle where
  "westboundVehicle = scenarioVehicle\<lparr>position := \<lparr>lat = 12.98, lng = 77.61\<rparr>\<rparr>"

text \<open>The scenario vehicle at 98 km/h, and with a full history of 450 entries whose
  timestamps increase.\<close>

definition fastVehicle :: Vehicle where
  "fastVehicle = scenarioVehicle\<lparr>currentSpeed := 98\<rparr>"

definition fullHistoryVehicle :: Vehicle where
  "fullHistoryVehicle = scenarioVehicle
     \<lparr>statusHistory :=
        Some (map (\<lambda>t. \<lparr>timestamp = int t, entry_status = OnTime, entry_speed = 30,
                         entry_position = \<lparr>lat = 12.96, lng = 77.58\<rparr>\<rparr>) [0..<450])\<rparr>"

text \<open>Draws with the largest upward variation of the speed, no random event firing.\<close>

definition jitterEnv :: Env where
  "jitterEnv = calmEnv\<lparr>r_variation := 0.99\<rparr>"

section \<open>Auxiliary facts\<close>

lemmas sample_defs = sampleDeps_def calmEnv_def burstEnv_def jitterEnv_def scenarioVehicle_def
  nearVehicle_def lostVehicle_def pastRouteVehicle_def meridianRoute_def fastVehicle_def
  westboundVehicle_def
  fullHistoryVehicle_def calculateNewPosition_spec_def

lemmas update_defs = simulateGPSUpdate_def routeStep_def directMove_def moveToward_def
  Math_atan2_def distanceKm_def perturbedSpeed_def speedVariation_def boundedSpeed_def
  speedLimitCheck_def SPEED_LIMIT_def finishUpdate_def distanceToDestination_def
  arrivalSpeed_def normalizeHeading_def js_rem_def slice_last_def getNextRouteTarget_def
  findClosestRoutePoint_def Let_def

subsection \<open>Arithmetic\<close>

lemma sqrt_numeral_sqr: "sqrt ((numeral n)\<^sup>2) = numeral n"
  by (simp only: real_sqrt_abs abs_numeral)

lemma sqrt_less_numeral [simp]: "sqrt x < numeral n \<longleftrightarrow> x < (numeral n)\<^sup>2"
  using real_sqrt_less_iff [of x "(numeral n)\<^sup>2"] by (simp only: sqrt_numeral_sqr)

lemma numeral_less_sqrt [simp]: "numeral n < sqrt x \<longleftrightarrow> (numeral n)\<^sup>2 < x"
  using real_sqrt_less_iff [of "(numeral n)\<^sup>2" x] by (simp only: sqrt_numeral_sqr)

lemma boundedSpeed_range: "5 \<le> boundedSpeed s \<and> boundedSpeed s \<le> 98"
  by (simp add: boundedSpeed_def)

lemma speedLimitCheck_bounded: "speedLimitCheck v (boundedSpeed s) = (boundedSpeed s, [])"
  using boundedSpeed_range [of s] by (simp add: speedLimitCheck_def SPEED_LIMIT_def)

lemma arrivalSpeed_le: "arrivalSpeed m s \<le> max 0 s"
  by (auto simp add: arrivalSpeed_def Let_def)

lemma arrivalSpeed_nonneg: "0 \<le> s \<Longrightarrow> 0 \<le> arrivalSpeed m s"
  by (simp add: arrivalSpeed_def Let_def)

lemma js_rem_pos: "0 \<le> a \<Longrightarrow> 0 < n \<Longrightarrow> 0 \<le> js_rem a n \<and> js_rem a n < n"
proof -
  assume a: "0 \<le> a" and n: "0 < n"
  then have q: "\<not> a / n < 0" by (simp add: not_less)
  have an: "n * (a / n) = a" using n by simp
  have f1: "of_int \<lfloor>a / n\<rfloor> \<le> a / n" by (rule of_int_floor_le)
  have f2: "a / n < of_int \<lfloor>a / n\<rfloor> + 1" by linarith
  from f1 n have "n * of_int \<lfloor>a / n\<rfloor> \<le> n * (a / n)"
    by (intro mult_left_mono) simp_all
  then have g1: "n * of_int \<lfloor>a / n\<rfloor> \<le> a" using an by simp
  from f2 n have "n * (a / n) < n * (of_int \<lfloor>a / n\<rfloor> + 1)"
    by (intro mult_strict_left_mono) simp_all
  then have g2: "a < n * of_int \<lfloor>a / n\<rfloor> + n" using an by (simp add: distrib_left)
  from g1 g2 q show ?thesis by (simp add: js_rem_def)
qed

lemma js_rem_gt: "0 < n \<Longrightarrow> - n < js_rem a n"
proof (cases "a / n < 0")
  case True
  assume n: "0 < n"
  have an: "n * (a / n) = a" using n by simp
  have c2: "of_int \<lceil>a / n\<rceil> < a / n + 1" by linarith
  from c2 n have "n * of_int \<lceil>a / n\<rceil> < n * (a / n + 1)"
    by (intro mult_strict_left_mono) simp_all
  then have "n * of_int \<lceil>a / n\<rceil> < a + n" using an by (simp add: distrib_left)
  then show ?thesis using True by (simp add: js_rem_def)
next
  case False
  assume n: "0 < n"
  with False have "0 \<le> a" by (simp add: not_less zero_le_divide_iff)
  from js_rem_pos [OF this n] n show ?thesis by linarith
qed

lemma normalizeHeading_range: "0 \<le> normalizeHeading h \<and> normalizeHeading h < 360"
proof -
  have "- 360 < js_rem h 360" by (rule js_rem_gt) simp
  then have "0 \<le> js_rem h 360 + 360" by simp
  from js_rem_pos [OF this, of 360] show ?thesis by (simp add: normalizeHeading_def)
qed

lemma normalizeHeading_minus_90: "normalizeHeading (- 90) = 270"
proof -
  have "\<lceil>- (1 / 4) :: real\<rceil> = 0" by (simp add: ceiling_eq_iff)
  then show ?thesis by (simp add: normalizeHeading_def js_rem_def)
qed

subsection \<open>The shape of an update\<close>

lemma getNextRouteTarget_route:
  assumes "route v = Some rt" and "rt \<noteq> []"
  shows "getNextRouteTarget v i =
    Inr (Some \<lparr>lat = lat (rt ! min (i + 1) (length rt - 1)),
               lng = lng (rt ! min (i + 1) (length rt - 1)),
               index = int (min (i + 1) (length rt - 1))\<rparr>)"
proof -
  from assms(2) have len: "0 < length rt" by simp
  then have m: "min (int i + 1) (int (length rt) - 1) = int (min (i + 1) (length rt - 1))"
    by arith
  have lt: "\<not> int (length rt) \<le> int (min (i + 1) (length rt - 1))"
    using len by arith
  show ?thesis
    unfolding getNextRouteTarget_def using assms lt
    by (simp add: Let_def m)
qed

lemma routeStep_route:
  assumes "route v = Some rt" and "2 < length rt"
  shows "\<exists>lg. routeStep deps env v km =
    (Inr (moveToward deps v km
               (lat (rt ! min (findClosestRoutePoint (position v) rt + 1) (length rt - 1)))
               (lng (rt ! min (findClosestRoutePoint (position v) rt + 1) (length rt - 1)))),
     lg) \<and> filter isSpeedViolation lg = []"
proof -
  from assms(2) have ne: "rt \<noteq> []" by auto
  have lt: "int (min (findClosestRoutePoint (position v) rt + 1) (length rt - 1)) < int (length rt)"
    using assms(2) by arith
  show ?thesis
    unfolding routeStep_def
    using assms lt
    by (simp add: Let_def getNextRouteTarget_route [OF assms(1) ne] split_beta)
qed

lemma routeStep_direct:
  assumes "\<not> (case route v of None \<Rightarrow> False | Some rt \<Rightarrow> 2 < length rt)"
  shows "routeStep deps env v km =
    (directMove deps v km,
     [NoRoute (vehicle_id v) (case route v of None \<Rightarrow> 0 | Some rt \<Rightarrow> length rt)])"
  unfolding routeStep_def using assms by simp

lemma routeStep_returns:
  assumes "destination v = Some d"
  shows "\<exists>np h lg. routeStep deps env v km = (Inr (np, h), lg) \<and> filter isSpeedViolation lg = []"
proof (cases "case route v of None \<Rightarrow> False | Some rt \<Rightarrow> 2 < length rt")
  case True
  then obtain rt where "route v = Some rt" "2 < length rt" by (auto split: option.splits)
  from routeStep_route [OF this, of deps env km] show ?thesis
    by (metis surj_pair)
next
  case False
  from routeStep_direct [OF False] assms show ?thesis
    by (cases "moveToward deps v km (lat d) (lng d)") (simp add: directMove_def)
qed

lemma getNextRouteTarget_error: "getNextRouteTarget v i = Inl e \<Longrightarrow> e = TypeError"
  by (auto simp: getNextRouteTarget_def Let_def split: option.splits if_splits)

lemma directMove_error: "directMove deps v km = Inl e \<Longrightarrow> e = TypeError"
  by (auto simp: directMove_def split: option.splits)

lemma routeStep_error: "fst (routeStep deps env v km) = Inl e \<Longrightarrow> e = TypeError"
  by (auto simp: routeStep_def Let_def split_beta
      dest: getNextRouteTarget_error directMove_error
      split: option.splits if_splits sum.splits)

lemma perturbedSpeed_log: "filter isSpeedViolation (snd (perturbedSpeed env v)) = []"
  by (simp add: perturbedSpeed_def Let_def)

lemma simulateGPSUpdate_Some:
  assumes "destination v = Some d" and "routeStep deps env v (distanceKm v) = (Inr (np, h), lg)"
  shows "simulateGPSUpdate deps env v =
    (Inr (finishUpdate deps env v d (boundedSpeed (fst (perturbedSpeed env v))) np (normalizeHeading h)),
     snd (perturbedSpeed env v) @ lg)"
  unfolding simulateGPSUpdate_def using assms
  by (simp add: split_beta speedLimitCheck_bounded)

lemma simulateGPSUpdate_None:
  assumes "destination v = None"
  shows "fst (simulateGPSUpdate deps env v) = Inl TypeError"
proof (cases "fst (routeStep deps env v (distanceKm v))")
  case (Inl e)
  then have "e = TypeError" by (rule routeStep_error)
  with Inl show ?thesis unfolding simulateGPSUpdate_def by (simp add: split_beta)
next
  case (Inr r)
  then show ?thesis unfolding simulateGPSUpdate_def using assms by (simp add: split_beta)
qed

lemma finishUpdate_currentSpeed:
  "currentSpeed (finishUpdate deps env v d s np h) = arrivalSpeed (distanceToDestination d np) s"
  by (simp add: finishUpdate_def Let_def split: option.splits)

lemma finishUpdate_heading: "heading (finishUpdate deps env v d s np h) = h"
  by (simp add: finishUpdate_def Let_def split: option.splits)

lemma finishUpdate_route: "route (finishUpdate deps env v d s np h) = route v"
  by (simp add: finishUpdate_def Let_def split: option.splits)

lemma finishUpdate_destination: "destination (finishUpdate deps env v d s np h) = destination v"
  by (simp add: finishUpdate_def Let_def split: option.splits)

lemma finishUpdate_position:
  "position (finishUpdate deps env v d s np h) =
     (if distanceToDestination d np < 100 then \<lparr>lat = lat d, lng = lng d\<rparr> else np)"
  by (simp add: finishUpdate_def Let_def split: option.splits)

lemma finishUpdate_statusHistory:
  "statusHistory (finishUpdate deps env v d s np h) =
     Some (slice_last 450 ((case statusHistory v of None \<Rightarrow> [] | Some old \<Rightarrow> old) @
       [\<lparr>timestamp = now env, entry_status = status v, entry_speed = currentSpeed v,
         entry_position = position v\<rparr>]))"
  by (simp add: finishUpdate_def Let_def split: option.splits)

lemma step_Some:
  assumes "destination v = Some d"
  shows "\<exists>np h lg. routeStep deps env v (distanceKm v) = (Inr (np, h), lg) \<and>
     filter isSpeedViolation lg = [] \<and>
     simulateGPSUpdate deps env v =
       (Inr (finishUpdate deps env v d (boundedSpeed (fst (perturbedSpeed env v))) np
              (normalizeHeading h)),
        snd (perturbedSpeed env v) @ lg)"
proof -
  from routeStep_returns [OF assms, of deps env "distanceKm v"]
  obtain np h lg where r: "routeStep deps env v (distanceKm v) = (Inr (np, h), lg)"
    and f: "filter isSpeedViolation lg = []" by blast
  from simulateGPSUpdate_Some [OF assms r] r f show ?thesis by blast
qed

lemma stored_speed_range:
  "0 \<le> arrivalSpeed m (boundedSpeed s) \<and> arrivalSpeed m (boundedSpeed s) \<le> 98"
proof -
  have "0 \<le> boundedSpeed s" using boundedSpeed_range [of s] by simp
  then have "0 \<le> arrivalSpeed m (boundedSpeed s)" by (rule arrivalSpeed_nonneg)
  moreover have "arrivalSpeed m (boundedSpeed s) \<le> 98"
    using arrivalSpeed_le [of m "boundedSpeed s"] boundedSpeed_range [of s] by simp
  ultimately show ?thesis by simp
qed

lemma ticks_invariant:
  assumes step: "\<And>env v. I v \<Longrightarrow> \<exists>v'. fst (simulateGPSUpdate deps env v) = Inr v' \<and> I v'"
    and "I v"
  shows "\<exists>v'. ticks deps envs v = Inr v' \<and> I v'"
  using assms(2)
proof (induction envs arbitrary: v)
  case Nil
  then show ?case by simp
next
  case (Cons env envs)
  from step [OF Cons.prems, of env] obtain v1
    where v1: "fst (simulateGPSUpdate deps env v) = Inr v1" and "I v1" by blast
  from Cons.IH [OF \<open>I v1\<close>] v1 show ?case by simp
qed

lemma slice_last_length: "length (slice_last n xs) = min n (length xs)"
  by (simp add: slice_last_def)

lemma slice_last_suffix: "\<exists>evicted. xs = evicted @ slice_last n xs"
  by (metis append_take_drop_id slice_last_def)

lemma slice_last_last: "0 < n \<Longrightarrow> xs \<noteq> [] \<Longrightarrow> last (slice_last n xs) = last xs"
  by (simp add: slice_last_def)

lemma update_logs_no_violation:
  assumes "simulateGPSUpdate deps env v = (Inr v', logs)"
  shows "filter isSpeedViolation logs = []"
proof (cases "destination v")
  case None
  from simulateGPSUpdate_None [OF None, of deps env] assms show ?thesis by simp
next
  case (Some d)
  from step_Some [OF Some, of deps env] assms show ?thesis
    by (auto simp: perturbedSpeed_log)
qed

lemma getNextRouteTarget_never_destination:
  assumes "route v = Some rt" and "rt \<noteq> []"
  shows "\<exists>k < length rt. getNextRouteTarget v i =
     Inr (Some \<lparr>lat = lat (rt ! k), lng = lng (rt ! k), index = int k\<rparr>)"
proof -
  from assms(2) have "min (i + 1) (length rt - 1) < length rt" by (cases rt) auto
  with getNextRouteTarget_route [OF assms, of i] show ?thesis by blast
qed

section \<open>The claims\<close>

subsection \<open>Distance travelled in a tick\<close>

text \<open>
  C1 (the code departs from the claim): the claim has the vehicle move
  \<open>currentSpeed * (dt / 3600)\<close> km in a tick, \<open>dt\<close> being the 4 seconds of the tick
  interval, that is 2/45 = 0.0444 km at 40 km/h. The update takes no \<open>dt\<close>; line 60
  multiplies by 2 seconds for every vehicle, while the store runs the update every 4000
  ms. For the scenario vehicle, whatever the imported helpers, the distance handed to
  \<open>calculateNewPosition\<close> along the bearing of 45 degrees is 1/45 = 0.0222 km, half of the
  2/45 = 0.0444 km of the claim.
\<close>

theorem distance_uses_two_seconds:
  "(\<forall>v. distanceKm v = currentSpeed v * (2 / 3600)) \<and>
   TICK_INTERVAL_MS / 1000 = 4 \<and>
   currentSpeed scenarioVehicle * ((TICK_INTERVAL_MS / 1000) / 3600) = 2 / 45 \<and>
   distanceKm scenarioVehicle = 1 / 45 \<and>
   (\<forall>deps. routeStep deps calmEnv scenarioVehicle (distanceKm scenarioVehicle) =
      (Inr (calculateNewPosition deps \<lparr>lat = 12.97, lng = 77.59\<rparr> (1 / 45) 45, 45),
       [NoRoute ''v1'' 0]))"
proof -
  have a: "\<forall>v. distanceKm v = currentSpeed v * (2 / 3600)"
    by (simp add: distanceKm_def)
  have b: "TICK_INTERVAL_MS / 1000 = 4" by (simp add: TICK_INTERVAL_MS_def)
  have c: "currentSpeed scenarioVehicle * ((TICK_INTERVAL_MS / 1000) / 3600) = 2 / 45"
    by (simp add: scenarioVehicle_def TICK_INTERVAL_MS_def)
  have d: "distanceKm scenarioVehicle = 1 / 45"
    by (simp add: distanceKm_def scenarioVehicle_def)
  have e: "\<forall>deps. routeStep deps calmEnv scenarioVehicle (distanceKm scenarioVehicle) =
      (Inr (calculateNewPosition deps \<lparr>lat = 12.97, lng = 77.59\<rparr> (1 / 45) 45, 45),
       [NoRoute ''v1'' 0])"
    by (simp add: routeStep_def directMove_def moveToward_def Math_atan2_def distanceKm_def
        scenarioVehicle_def arctan_one)
  from a b c d e show ?thesis by blast
qed

subsection \<open>The speed-violation message\<close>

text \<open>
  C2, the claim as stated is false: no vehicle and no draws make the update return a
  vehicle after a raw speed over 100 km/h with exactly one speed-violation message, each
  reporting a speed over 100, and a stored speed of 100. The clamp of line 84 brings every
  speed down to 98 before the check of line 88, so the message of line 89 is never printed.
\<close>

theorem violation_claim_fails:
  "\<not> (\<exists>deps env v v' logs.
        simulateGPSUpdate deps env v = (Inr v', logs) \<and>
        100 < fst (perturbedSpeed env v) \<and>
        length (filter isSpeedViolation logs) = 1 \<and>
        (\<forall>e \<in> set (filter isSpeedViolation logs). 100 < observedSpeed e) \<and>
        currentSpeed v' = 100)"
proof
  assume "\<exists>deps env v v' logs.
        simulateGPSUpdate deps env v = (Inr v', logs) \<and>
        100 < fst (perturbedSpeed env v) \<and>
        length (filter isSpeedViolation logs) = 1 \<and>
        (\<forall>e \<in> set (filter isSpeedViolation logs). 100 < observedSpeed e) \<and>
        currentSpeed v' = 100"
  then obtain deps env v v' logs where
    u: "simulateGPSUpdate deps env v = (Inr v', logs)" and
    n: "length (filter isSpeedViolation logs) = 1" by blast
  from update_logs_no_violation [OF u] n show False by simp
qed

text \<open>
  C2 as amended: for every vehicle with a destination and all random draws, the speed
  that reaches the speed-limit check is at most 98 km/h, and the update returns a vehicle
  and prints no speed-violation message.
\<close>

theorem no_speed_violation:
  assumes "destination v = Some d"
  shows "boundedSpeed (fst (perturbedSpeed env v)) \<le> 98 \<and>
    (\<exists>v' logs. simulateGPSUpdate deps env v = (Inr v', logs) \<and>
       filter isSpeedViolation logs = [])"
proof -
  from step_Some [OF assms, of deps env] obtain np h lg where
    f: "filter isSpeedViolation lg = []" and
    s: "simulateGPSUpdate deps env v =
        (Inr (finishUpdate deps env v d (boundedSpeed (fst (perturbedSpeed env v))) np
               (normalizeHeading h)), snd (perturbedSpeed env v) @ lg)" by blast
  from s f show ?thesis
    using boundedSpeed_range [of "fst (perturbedSpeed env v)"]
    by (simp add: perturbedSpeed_log)
qed

theorem no_speed_violation_witness:
  "fst (perturbedSpeed jitterEnv fastVehicle) = 102.802 \<and>
   boundedSpeed (fst (perturbedSpeed jitterEnv fastVehicle)) = 98 \<and>
   (\<exists>v' logs. simulateGPSUpdate sampleDeps jitterEnv fastVehicle = (Inr v', logs) \<and>
      filter isSpeedViolation logs = [])"
proof -
  have raw: "fst (perturbedSpeed jitterEnv fastVehicle) = 102.802"
    by (simp add: perturbedSpeed_def speedVariation_def sample_defs Let_def)
  then have b: "boundedSpeed (fst (perturbedSpeed jitterEnv fastVehicle)) = 98"
    by (simp add: boundedSpeed_def)
  have "destination fastVehicle =
      Some \<lparr>lat = 12.98, lng = 77.60, address = ''MG Road, Bangalore, Karnataka''\<rparr>"
    by (simp add: sample_defs)
  from no_speed_violation [OF this, where deps = sampleDeps and env = jitterEnv] raw b
  show ?thesis by blast
qed

subsection \<open>The target on a route\<close>

text \<open>
  C3 (the code departs from the claim): the claim has the update target the destination
  when the closest waypoint is the last one. Line 37 caps the target index at
  \<open>route.length - 1\<close>, so the test of line 39 never holds and the target is the last
  waypoint itself. The vehicle below is 111 metres north of the last waypoint of its
  route, its destination further north: the closest waypoint is the last one (index 2),
  the target is that waypoint, and the update turns the vehicle south (heading 180) and
  moves it away from its destination.
\<close>

theorem last_waypoint_targets_itself:
  "findClosestRoutePoint (position pastRouteVehicle) meridianRoute = 2 \<and>
   getNextRouteTarget pastRouteVehicle 2 = Inr (Some \<lparr>lat = 12.98, lng = 77.59, index = 2\<rparr>) \<and>
   (\<exists>v' logs. simulateGPSUpdate sampleDeps calmEnv pastRouteVehicle = (Inr v', logs) \<and>
      heading v' = 180 \<and> lat (position v') < lat (position pastRouteVehicle) \<and>
      destination pastRouteVehicle =
        Some \<lparr>lat = 12.99, lng = 77.59, address = ''Yelahanka, Bangalore, Karnataka''\<rparr>)"
proof -
  have a: "findClosestRoutePoint (position pastRouteVehicle) meridianRoute = 2"
    by (simp add: sample_defs update_defs)
  have b: "getNextRouteTarget pastRouteVehicle 2 =
      Inr (Some \<lparr>lat = 12.98, lng = 77.59, index = 2\<rparr>)"
    by (simp add: sample_defs update_defs)
  have c: "\<exists>v' logs. simulateGPSUpdate sampleDeps calmEnv pastRouteVehicle = (Inr v', logs) \<and>
      heading v' = 180 \<and> lat (position v') < lat (position pastRouteVehicle) \<and>
      destination pastRouteVehicle =
        Some \<lparr>lat = 12.99, lng = 77.59, address = ''Yelahanka, Bangalore, Karnataka''\<rparr>"
    by (simp add: sample_defs update_defs power2_eq_square)
  from a b c show ?thesis by blast
qed

subsection \<open>The stored speed\<close>

text \<open>
  C4: for every vehicle with a destination, every implementation of the imported helpers
  and every non-empty sequence of ticks, whatever the random draws and whatever the speed
  of the input, the run returns a vehicle, and its stored \<open>currentSpeed\<close> lies between 0
  and 100.
\<close>

theorem speed_within_limits:
  assumes "destination v = Some d"
  shows "\<exists>v'. ticks deps (env # envs) v = Inr v' \<and> 0 \<le> currentSpeed v' \<and> currentSpeed v' \<le> 100"
proof -
  let ?I = "\<lambda>u. destination u = Some d \<and> 0 \<le> currentSpeed u \<and> currentSpeed u \<le> 100"
  have step: "\<exists>v'. fst (simulateGPSUpdate deps e u) = Inr v' \<and> ?I v'" if "destination u = Some d" for e u
  proof -
    from step_Some [OF that, of deps e] obtain np h lg where
      "simulateGPSUpdate deps e u =
        (Inr (finishUpdate deps e u d (boundedSpeed (fst (perturbedSpeed e u))) np
               (normalizeHeading h)), snd (perturbedSpeed e u) @ lg)" by blast
    then show ?thesis
      using stored_speed_range [of "distanceToDestination d np" "fst (perturbedSpeed e u)"] that
      by (simp add: finishUpdate_currentSpeed finishUpdate_destination)
  qed
  from step [OF assms, of env] obtain v1 where
    v1: "fst (simulateGPSUpdate deps env v) = Inr v1" and i1: "?I v1" by blast
  have "\<exists>v'. ticks deps envs v1 = Inr v' \<and> ?I v'"
    by (rule ticks_invariant [where I = ?I]) (use step i1 in blast)+
  with v1 show ?thesis by auto
qed

theorem speed_within_limits_witness:
  "\<exists>v'. ticks sampleDeps [burstEnv, calmEnv] scenarioVehicle = Inr v' \<and>
     0 \<le> currentSpeed v' \<and> currentSpeed v' \<le> 100"
  using speed_within_limits [of scenarioVehicle _ sampleDeps burstEnv "[calmEnv]"]
  by (simp add: scenarioVehicle_def)

subsection \<open>Arrival\<close>

text \<open>
  C5: for every vehicle with a destination the update returns a vehicle; when the
  flat-earth distance from the newly computed position to the destination is under 100
  metres, the resulting position is exactly the destination's coordinates and the
  resulting speed is 0; when it is under 500 metres, the resulting speed is at most 20.
\<close>

theorem arrival_snap:
  assumes "destination v = Some d"
  shows "\<exists>newPosition newHeading lg v' logs.
     routeStep deps env v (distanceKm v) = (Inr (newPosition, newHeading), lg) \<and>
     simulateGPSUpdate deps env v = (Inr v', logs) \<and>
     (distanceToDestination d newPosition < 100 \<longrightarrow>
        position v' = \<lparr>lat = lat d, lng = lng d\<rparr> \<and> currentSpeed v' = 0) \<and>
     (distanceToDestination d newPosition < 500 \<longrightarrow> currentSpeed v' \<le> 20)"
proof -
  from step_Some [OF assms, of deps env] obtain np h lg where
    r: "routeStep deps env v (distanceKm v) = (Inr (np, h), lg)" and
    s: "simulateGPSUpdate deps env v =
        (Inr (finishUpdate deps env v d (boundedSpeed (fst (perturbedSpeed env v))) np
               (normalizeHeading h)), snd (perturbedSpeed env v) @ lg)" by blast
  let ?v' = "finishUpdate deps env v d (boundedSpeed (fst (perturbedSpeed env v))) np
               (normalizeHeading h)"
  have near: "position ?v' = \<lparr>lat = lat d, lng = lng d\<rparr> \<and> currentSpeed ?v' = 0"
    if "distanceToDestination d np < 100"
    using that by (simp add: finishUpdate_position finishUpdate_currentSpeed arrivalSpeed_def)
  have slow: "currentSpeed ?v' \<le> 20" if "distanceToDestination d np < 500"
    using that by (simp add: finishUpdate_currentSpeed arrivalSpeed_def)
  from r s near slow show ?thesis by blast
qed

theorem arrival_snap_witness:
  "\<exists>v' logs. simulateGPSUpdate sampleDeps calmEnv nearVehicle = (Inr v', logs) \<and>
     position v' = \<lparr>lat = 12.98, lng = 77.60\<rparr> \<and> currentSpeed v' = 0"
proof -
  have d: "destination nearVehicle =
      Some \<lparr>lat = 12.98, lng = 77.60, address = ''MG Road, Bangalore, Karnataka''\<rparr>"
    by (simp add: sample_defs)
  have r: "routeStep sampleDeps calmEnv nearVehicle (distanceKm nearVehicle) =
      (Inr (\<lparr>lat = 259335409 / 19980000, lng = 77.60\<rparr>, 0), [NoRoute ''v1'' 0])"
    by (simp add: sample_defs update_defs)
  have lt: "distanceToDestination
      \<lparr>lat = 12.98, lng = 77.60, address = ''MG Road, Bangalore, Karnataka''\<rparr>
      \<lparr>lat = 259335409 / 19980000, lng = 77.60\<rparr> < 100"
    by (simp add: distanceToDestination_def power2_eq_square)
  from arrival_snap [OF d, of sampleDeps calmEnv] r lt show ?thesis by auto
qed

subsection \<open>The status history\<close>

text \<open>
  C6: the update appends to the history a snapshot of the status, the speed and the
  position of the vehicle before the update, then keeps the last 450 entries: the new
  history is a suffix of the old one followed by the snapshot (the oldest entries are the
  ones dropped), it ends with the snapshot, and it has \<open>min 450 (n + 1)\<close> entries.
  After any non-empty sequence of ticks the history has at most 450 entries.
\<close>

theorem history_snapshot_bounded:
  assumes "destination v = Some d"
  shows "\<exists>v' logs h evicted.
     simulateGPSUpdate deps env v = (Inr v', logs) \<and> statusHistory v' = Some h \<and>
     (case statusHistory v of None \<Rightarrow> [] | Some old \<Rightarrow> old) @
       [\<lparr>timestamp = now env, entry_status = status v, entry_speed = currentSpeed v,
         entry_position = position v\<rparr>] = evicted @ h \<and>
     last h = \<lparr>timestamp = now env, entry_status = status v, entry_speed = currentSpeed v,
         entry_position = position v\<rparr> \<and>
     length h = min 450 (length (case statusHistory v of None \<Rightarrow> [] | Some old \<Rightarrow> old) + 1) \<and>
     (\<exists>v'' h'. ticks deps (env # envs) v = Inr v'' \<and> statusHistory v'' = Some h' \<and>
        length h' \<le> 450)"
proof -
  let ?old = "case statusHistory v of None \<Rightarrow> [] | Some old \<Rightarrow> old"
  let ?e = "\<lparr>timestamp = now env, entry_status = status v, entry_speed = currentSpeed v,
         entry_position = position v\<rparr>"
  let ?I = "\<lambda>u. destination u = Some d \<and> (\<exists>h. statusHistory u = Some h \<and> length h \<le> 450)"
  have step: "\<exists>v'. fst (simulateGPSUpdate deps e u) = Inr v' \<and> ?I v'"
    if "destination u = Some d" for e u
  proof -
    from step_Some [OF that, of deps e] obtain np h lg where
      "simulateGPSUpdate deps e u =
        (Inr (finishUpdate deps e u d (boundedSpeed (fst (perturbedSpeed e u))) np
               (normalizeHeading h)), snd (perturbedSpeed e u) @ lg)" by blast
    then show ?thesis using that
      by (simp add: finishUpdate_statusHistory finishUpdate_destination slice_last_length)
  qed
  from step_Some [OF assms, of deps env] obtain np h lg where
    s: "simulateGPSUpdate deps env v =
        (Inr (finishUpdate deps env v d (boundedSpeed (fst (perturbedSpeed env v))) np
               (normalizeHeading h)), snd (perturbedSpeed env v) @ lg)" by blast
  let ?v' = "finishUpdate deps env v d (boundedSpeed (fst (perturbedSpeed env v))) np
               (normalizeHeading h)"
  let ?h = "slice_last 450 (?old @ [?e])"
  have h: "statusHistory ?v' = Some ?h" by (simp add: finishUpdate_statusHistory)
  from slice_last_suffix [of "?old @ [?e]" 450] obtain evicted where
    ev: "?old @ [?e] = evicted @ ?h" by blast
  have la: "last ?h = ?e" by (simp add: slice_last_last)
  have len: "length ?h = min 450 (length ?old + 1)" by (simp add: slice_last_length)
  from step [OF assms, of env] obtain v1 where
    v1: "fst (simulateGPSUpdate deps env v) = Inr v1" and i1: "?I v1" by blast
  have "\<exists>v'. ticks deps envs v1 = Inr v' \<and> ?I v'"
    by (rule ticks_invariant [where I = ?I]) (use step i1 in blast)+
  with v1 have t: "\<exists>v'' h'. ticks deps (env # envs) v = Inr v'' \<and> statusHistory v'' = Some h' \<and>
        length h' \<le> 450" by auto
  from s h ev la len t show ?thesis by blast
qed

theorem history_snapshot_bounded_witness:
  "\<exists>v' logs h evicted.
     simulateGPSUpdate sampleDeps calmEnv fullHistoryVehicle = (Inr v', logs) \<and>
     statusHistory v' = Some h \<and>
     length h = 450 \<and>
     last h = \<lparr>timestamp = 1700000000000, entry_status = OnTime, entry_speed = 40,
                entry_position = \<lparr>lat = 12.97, lng = 77.59\<rparr>\<rparr> \<and>
     (\<exists>v'' h'. ticks sampleDeps [calmEnv, burstEnv] fullHistoryVehicle = Inr v'' \<and>
        statusHistory v'' = Some h' \<and> length h' \<le> 450)"
  using history_snapshot_bounded [of fullHistoryVehicle _ sampleDeps calmEnv "[burstEnv]"]
  by (simp add: fullHistoryVehicle_def scenarioVehicle_def calmEnv_def) blast

subsection \<open>A vehicle without a destination\<close>

text \<open>
  C7, the claim as stated is false: for the scenario vehicle without its destination the
  update does not fail with \<open>MissingDestination\<close>, and it does not fail before doing
  anything: it has printed the no-route message of line 134 when line 135 throws.
\<close>

theorem missing_destination_not_reported:
  "fst (simulateGPSUpdate sampleDeps calmEnv lostVehicle) \<noteq> Inl MissingDestination \<and>
   snd (simulateGPSUpdate sampleDeps calmEnv lostVehicle) \<noteq> []"
  by (simp add: sample_defs update_defs)

text \<open>
  C7 as amended: for every vehicle with no destination the update returns no vehicle: it
  ends with the \<open>TypeError\<close> that the first read of the destination's coordinates
  throws.
\<close>

theorem missing_destination_type_error:
  assumes "destination v = None"
  shows "fst (simulateGPSUpdate deps env v) = Inl TypeError"
  using assms by (rule simulateGPSUpdate_None)

theorem missing_destination_type_error_witness:
  "simulateGPSUpdate sampleDeps calmEnv lostVehicle = (Inl TypeError, [NoRoute ''v1'' 0])"
proof -
  have "destination lostVehicle = None" by (simp add: sample_defs)
  from missing_destination_type_error [OF this, of sampleDeps calmEnv]
  have "fst (simulateGPSUpdate sampleDeps calmEnv lostVehicle) = Inl TypeError" .
  moreover have "snd (simulateGPSUpdate sampleDeps calmEnv lostVehicle) = [NoRoute ''v1'' 0]"
    by (simp add: sample_defs update_defs)
  ultimately show ?thesis by (simp add: prod_eq_iff)
qed

subsection \<open>The heading\<close>

text \<open>
  C8: for every vehicle with a destination and all random draws, the update returns a
  vehicle whose heading lies in the interval from 0 (included) to 360 (excluded).
\<close>

theorem heading_normalised:
  assumes "destination v = Some d"
  shows "\<exists>v' logs. simulateGPSUpdate deps env v = (Inr v', logs) \<and>
     0 \<le> heading v' \<and> heading v' < 360"
proof -
  from step_Some [OF assms, of deps env] obtain np h lg where
    s: "simulateGPSUpdate deps env v =
        (Inr (finishUpdate deps env v d (boundedSpeed (fst (perturbedSpeed env v))) np
               (normalizeHeading h)), snd (perturbedSpeed env v) @ lg)" by blast
  then show ?thesis using normalizeHeading_range [of h] by (simp add: finishUpdate_heading)
qed

theorem heading_normalised_witness:
  "\<exists>v' logs. simulateGPSUpdate sampleDeps calmEnv westboundVehicle = (Inr v', logs) \<and>
     heading v' = 270 \<and> 0 \<le> heading v' \<and> heading v' < 360"
proof -
  have d: "destination westboundVehicle =
      Some \<lparr>lat = 12.98, lng = 77.60, address = ''MG Road, Bangalore, Karnataka''\<rparr>"
    by (simp add: westboundVehicle_def scenarioVehicle_def)
  have r: "routeStep sampleDeps calmEnv westboundVehicle (distanceKm westboundVehicle) =
      (Inr (calculateNewPosition sampleDeps \<lparr>lat = 12.98, lng = 77.61\<rparr> (1 / 45) (- 90), - 90),
       [NoRoute ''v1'' 0])"
    by (simp add: routeStep_def directMove_def moveToward_def Math_atan2_def distanceKm_def
        westboundVehicle_def scenarioVehicle_def)
  from simulateGPSUpdate_Some [OF d r]
  have h: "heading (projr (fst (simulateGPSUpdate sampleDeps calmEnv westboundVehicle))) = 270"
    by (simp add: finishUpdate_heading normalizeHeading_minus_90)
  from heading_normalised [OF d, where deps = sampleDeps and env = calmEnv] h
  show ?thesis by auto
qed

subsection \<open>The route\<close>

text \<open>
  C9: for every vehicle with a destination, whatever its route, the update returns a
  vehicle with the same route field, waypoint for waypoint.
\<close>

theorem route_preserved:
  assumes "destination v = Some d"
  shows "\<exists>v' logs. simulateGPSUpdate deps env v = (Inr v', logs) \<and> route v' = route v"
proof -
  from step_Some [OF assms, of deps env] obtain np h lg where
    s: "simulateGPSUpdate deps env v =
        (Inr (finishUpdate deps env v d (boundedSpeed (fst (perturbedSpeed env v))) np
               (normalizeHeading h)), snd (perturbedSpeed env v) @ lg)" by blast
  then show ?thesis by (simp add: finishUpdate_route)
qed

theorem route_preserved_witness:
  "\<exists>v' logs. simulateGPSUpdate sampleDeps burstEnv pastRouteVehicle = (Inr v', logs) \<and>
     route v' = Some meridianRoute"
  using route_preserved [of pastRouteVehicle _ sampleDeps burstEnv]
  by (simp add: pastRouteVehicle_def scenarioVehicle_def)

subsection \<open>The cap that never binds\<close>

text \<open>
  C10: for every vehicle with a destination and all random draws, the update returns a
  vehicle whose stored speed is at most 98 km/h, and the speed-limit check of lines 86-91
  leaves the speed it receives unchanged and prints nothing.
\<close>

theorem stored_speed_at_most_98:
  assumes "destination v = Some d"
  shows "\<exists>v' logs. simulateGPSUpdate deps env v = (Inr v', logs) \<and> currentSpeed v' \<le> 98 \<and>
     speedLimitCheck v (boundedSpeed (fst (perturbedSpeed env v))) =
       (boundedSpeed (fst (perturbedSpeed env v)), [])"
proof -
  from step_Some [OF assms, of deps env] obtain np h lg where
    s: "simulateGPSUpdate deps env v =
        (Inr (finishUpdate deps env v d (boundedSpeed (fst (perturbedSpeed env v))) np
               (normalizeHeading h)), snd (perturbedSpeed env v) @ lg)" by blast
  then show ?thesis
    using stored_speed_range [of "distanceToDestination d np" "fst (perturbedSpeed env v)"]
    by (simp add: finishUpdate_currentSpeed speedLimitCheck_bounded)
qed

theorem stored_speed_at_most_98_witness:
  "\<exists>v' logs. simulateGPSUpdate sampleDeps jitterEnv (scenarioVehicle\<lparr>currentSpeed := 1000\<rparr>)
       = (Inr v', logs) \<and> currentSpeed v' \<le> 98"
proof -
  have "destination (scenarioVehicle\<lparr>currentSpeed := 1000\<rparr>) =
      Some \<lparr>lat = 12.98, lng = 77.60, address = ''MG Road, Bangalore, Karnataka''\<rparr>"
    by (simp add: scenarioVehicle_def)
  from stored_speed_at_most_98 [OF this, where deps = sampleDeps and env = jitterEnv]
  show ?thesis by blast
qed

end
